theory Spec2Isabelle
  imports Main "HOL-Library.Sublist"
begin

section \<open>JavaScript values, objects and the object store\<close>

text \<open>
  The factory of \<^verbatim>\<open>packages/core/src/batch/BatchRendererFactory.js\<close> works on
  JavaScript objects: an options object, function objects with a \<^verbatim>\<open>prototype\<close>
  property, and the instances a constructor initialises. Objects have identity, so they
  live in a store and values refer to them by address.
\<close>

datatype jsval = Undefined | Num int | Str string | Ref nat | Func string

datatype error = Thrown jsval

type_synonym props = "string \<rightharpoonup> jsval"

record jsobj =
  members :: props
  proto :: jsval

record store =
  objs :: "nat \<Rightarrow> jsobj"
  nxt :: nat

text \<open>
  The code of a function object. The only function the factory defines is
  \<^verbatim>\<open>BatchPlugin\<close>, a closure over the four variables destructured in
  \<^verbatim>\<open>create\<close>: vertex, fragment, vertexSize and geometryClass, in this order.
  The variables of a closure are no properties of any object: they are kept beside the
  store, by the address of the function object, where only a call of the function reads
  them.
\<close>

datatype closure =
  BatchPlugin (cl_vertex: jsval) (cl_fragment: jsval) (cl_vertexSize: jsval) (cl_geometryClass: jsval)

record state =
  st :: store
  bodies :: "nat \<rightharpoonup> closure"

text \<open>Reading a property that is absent gives \<^verbatim>\<open>undefined\<close>.\<close>

definition get :: "props \<Rightarrow> string \<Rightarrow> jsval" where
  "get p k = (case p k of None \<Rightarrow> Undefined | Some v \<Rightarrow> v)"

definition get_field :: "store \<Rightarrow> nat \<Rightarrow> string \<Rightarrow> jsval" where
  "get_field h a k = get (members (objs h a)) k"

definition set_field :: "store \<Rightarrow> nat \<Rightarrow> string \<Rightarrow> jsval \<Rightarrow> store" where
  "set_field h a k v =
     h\<lparr>objs := (objs h)(a := (objs h a)\<lparr>members := (members (objs h a))(k \<mapsto> v)\<rparr>)\<rparr>"

definition alloc :: "store \<Rightarrow> jsobj \<Rightarrow> nat \<times> store" where
  "alloc h ob = (nxt h, h\<lparr>objs := (objs h)(nxt h := ob), nxt := Suc (nxt h)\<rparr>)"

text \<open>
  \<^verbatim>\<open>Object.assign(target, source)\<close> copies every own property of the source over
  the target; a source that is \<^verbatim>\<open>undefined\<close> (here \<open>None\<close>: the argument was
  omitted) is skipped.
\<close>

definition Object_assign :: "props \<Rightarrow> props option \<Rightarrow> props" where
  "Object_assign target source = (case source of None \<Rightarrow> target | Some s \<Rightarrow> target ++ s)"

section \<open>The module's imports\<close>

text \<open>
  The module imports \<^verbatim>\<open>BatchShaderGenerator\<close>, \<^verbatim>\<open>BatchGeometry\<close>,
  \<^verbatim>\<open>BaseBatchRenderer\<close> and the two shader sources \<^verbatim>\<open>texture.vert\<close> and
  \<^verbatim>\<open>texture.frag\<close>. They are parameters of the model:
  \<^item> \<open>defaultVertex\<close>, \<open>defaultFragment\<close>: the imported shader sources;
  \<^item> \<open>BatchGeometry\<close>: the imported geometry class;
  \<^item> \<open>BaseBatchRenderer_prototype\<close>: the value of \<^verbatim>\<open>BaseBatchRenderer.prototype\<close>;
  \<^item> \<open>BaseBatchRenderer_call this renderer\<close>: the call
    \<^verbatim>\<open>BaseBatchRenderer.call(this, renderer)\<close>, which changes the store and
    returns normally (\<open>None\<close>) or throws;
  \<^item> \<open>BatchShaderGenerator_new vertex fragment\<close>: the expression
    \<^verbatim>\<open>new BatchShaderGenerator(vertex, fragment)\<close>, which returns the new generator
    or throws;
  \<^item> \<open>BaseBatchRenderer_method name this args\<close>: a call of a method that an instance
    inherits from \<^verbatim>\<open>BaseBatchRenderer.prototype\<close>.
  A throw keeps the changes made to the store before it.
\<close>

record module_env =
  defaultVertex :: jsval
  defaultFragment :: jsval
  BatchGeometry :: jsval
  BaseBatchRenderer_prototype :: jsval
  BaseBatchRenderer_call :: "nat \<Rightarrow> jsval \<Rightarrow> store \<Rightarrow> error option \<times> store"
  BatchShaderGenerator_new :: "jsval \<Rightarrow> jsval \<Rightarrow> store \<Rightarrow> (error + jsval) \<times> store"
  BaseBatchRenderer_method :: "string \<Rightarrow> nat \<Rightarrow> jsval list \<Rightarrow> store \<Rightarrow> error option \<times> store"

section \<open>BatchRendererFactory.create\<close>

text \<open>
  Lines 47 to 52: the defaults object, overridden by the options, then destructured into
  (vertex, fragment, vertexSize, geometryClass).
\<close>

definition defaults :: "module_env \<Rightarrow> props" where
  "defaults env = [''vertex'' \<mapsto> defaultVertex env,
                   ''fragment'' \<mapsto> defaultFragment env,
                   ''geometryClass'' \<mapsto> BatchGeometry env,
                   ''vertexSize'' \<mapsto> Num 6]"

definition resolve :: "module_env \<Rightarrow> props option \<Rightarrow> closure" where
  "resolve env options =
     (let cfg = Object_assign (defaults env) options
      in BatchPlugin (get cfg ''vertex'') (get cfg ''fragment'')
                     (get cfg ''vertexSize'') (get cfg ''geometryClass''))"

text \<open>
  Lines 54 to 64. The function declaration creates a function object together with its
  own fresh prototype object; line 62 then overwrites the function's
  \<^verbatim>\<open>prototype\<close> property with the value of \<^verbatim>\<open>BaseBatchRenderer.prototype\<close>.
  The function object is returned.
\<close>

definition create :: "module_env \<Rightarrow> props option \<Rightarrow> state \<Rightarrow> jsval \<times> state" where
  "create env options s =
     (let cl = resolve env options;
          (own, h1) = alloc (st s) \<lparr>members = [''constructor'' \<mapsto> Ref (Suc (nxt (st s)))],
                                    proto = Undefined\<rparr>;
          (fn, h2) = alloc h1 \<lparr>members = [''prototype'' \<mapsto> Ref own], proto = Undefined\<rparr>;
          h3 = set_field h2 fn ''prototype'' (BaseBatchRenderer_prototype env)
      in (Ref fn, \<lparr>st = h3, bodies = (bodies s)(fn \<mapsto> cl)\<rparr>))"

text \<open>
  The body of \<^verbatim>\<open>BatchPlugin\<close>, lines 56 to 59, run on \<^verbatim>\<open>this\<close>.
\<close>

definition run_body :: "module_env \<Rightarrow> closure \<Rightarrow> nat \<Rightarrow> jsval \<Rightarrow> store \<Rightarrow> error option \<times> store" where
  "run_body env cl this renderer h =
     (case cl of BatchPlugin vertex fragment vertexSize geometryClass \<Rightarrow>
        (case BaseBatchRenderer_call env this renderer h of
           (Some e, h1) \<Rightarrow> (Some e, h1)
         | (None, h1) \<Rightarrow>
             (case BatchShaderGenerator_new env vertex fragment h1 of
                (Inl e, h2) \<Rightarrow> (Some e, h2)
              | (Inr g, h2) \<Rightarrow>
                  (None,
                   set_field
                     (set_field
                        (set_field h2 this ''shaderGenerator'' g)
                        this ''geometryClass'' geometryClass)
                     this ''vertexSize'' vertexSize))))"

text \<open>
  \<^verbatim>\<open>new F(renderer)\<close>: a fresh object whose prototype is the current value of
  \<^verbatim>\<open>F.prototype\<close> becomes \<^verbatim>\<open>this\<close>, the body runs, and \<^verbatim>\<open>this\<close> is the
  result. \<^verbatim>\<open>new\<close> on a value that is no function throws a TypeError.
\<close>

definition construct :: "module_env \<Rightarrow> jsval \<Rightarrow> jsval \<Rightarrow> state \<Rightarrow> (error + jsval) \<times> state" where
  "construct env f renderer s =
     (case f of
        Ref a \<Rightarrow>
          (case bodies s a of
             None \<Rightarrow> (Inl (Thrown (Str ''TypeError'')), s)
           | Some cl \<Rightarrow>
               (let (this, h0) = alloc (st s) \<lparr>members = Map.empty,
                                                proto = get_field (st s) a ''prototype''\<rparr>
                in case run_body env cl this renderer h0 of
                     (Some e, h') \<Rightarrow> (Inl e, s\<lparr>st := h'\<rparr>)
                   | (None, h') \<Rightarrow> (Inr (Ref this), s\<lparr>st := h'\<rparr>)))
      | _ \<Rightarrow> (Inl (Thrown (Str ''TypeError'')), s))"

text \<open>
  A method call \<^verbatim>\<open>inst.name(args)\<close> on an object whose prototype is
  \<^verbatim>\<open>BaseBatchRenderer.prototype\<close> runs the inherited method; the constructor
  defines no method of its own.
\<close>

definition invoke :: "module_env \<Rightarrow> nat \<Rightarrow> string \<Rightarrow> jsval list \<Rightarrow> state \<Rightarrow> error option \<times> state" where
  "invoke env inst name args s =
     (if proto (objs (st s) inst) = BaseBatchRenderer_prototype env
      then (case BaseBatchRenderer_method env name inst args (st s) of
              (r, h') \<Rightarrow> (r, s\<lparr>st := h'\<rparr>))
      else (Some (Thrown (Str ''TypeError'')), s))"

text \<open>
  Line 94: the module-level constant \<^verbatim>\<open>BatchRenderer\<close>, evaluated when the
  module is loaded.
\<close>

definition BatchRenderer :: "module_env \<Rightarrow> state \<Rightarrow> jsval \<times> state" where
  "BatchRenderer env s = create env None s"

subsection \<open>The static members of the class\<close>

text \<open>
  The class has three static members: the method \<^verbatim>\<open>create\<close>, an ordinary
  (writable) property holding a function, and the two accessors
  \<^verbatim>\<open>defaultVertexSrc\<close> and \<^verbatim>\<open>defaultFragmentTemplate\<close> (lines 74 to 89),
  each declared with \<^verbatim>\<open>static get\<close> and no \<^verbatim>\<open>set\<close>.
\<close>

datatype member = Data jsval | Getter "module_env \<Rightarrow> jsval"

definition BatchRendererFactory :: "string \<rightharpoonup> member" where
  "BatchRendererFactory = [''create'' \<mapsto> Data (Func ''create''),
                           ''defaultVertexSrc'' \<mapsto> Getter defaultVertex,
                           ''defaultFragmentTemplate'' \<mapsto> Getter defaultFragment]"

text \<open>
  Reading a static member runs its getter. Assigning to an accessor that has no setter
  changes nothing: it is ignored in sloppy code and throws a TypeError in strict code.
  Assigning to a data property replaces its value.
\<close>

definition class_get :: "module_env \<Rightarrow> (string \<rightharpoonup> member) \<Rightarrow> string \<Rightarrow> jsval" where
  "class_get env c name =
     (case c name of None \<Rightarrow> Undefined | Some (Data v) \<Rightarrow> v | Some (Getter g) \<Rightarrow> g env)"

definition class_put ::
  "bool \<Rightarrow> (string \<rightharpoonup> member) \<Rightarrow> string \<Rightarrow> jsval \<Rightarrow> error option \<times> (string \<rightharpoonup> member)" where
  "class_put strict c name v =
     (case c name of
        Some (Getter g) \<Rightarrow> (if strict then Some (Thrown (Str ''TypeError'')) else None, c)
      | _ \<Rightarrow> (None, c(name \<mapsto> Data v)))"

subsection \<open>Reading the model\<close>

text \<open>The closure of the function object a value refers to.\<close>

definition closure_of :: "state \<Rightarrow> jsval \<Rightarrow> closure option" where
  "closure_of s f = (case f of Ref a \<Rightarrow> bodies s a | _ \<Rightarrow> None)"

text \<open>The value an options argument gives for a key, if the key is present.\<close>

definition option_of :: "props option \<Rightarrow> string \<Rightarrow> jsval option" where
  "option_of options k = (case options of None \<Rightarrow> None | Some s \<Rightarrow> s k)"

text \<open>A property of the object a value refers to.\<close>

definition field_of :: "state \<Rightarrow> jsval \<Rightarrow> string \<Rightarrow> jsval" where
  "field_of s v k = (case v of Ref a \<Rightarrow> get_field (st s) a k | _ \<Rightarrow> Undefined)"

subsection \<open>Locality of the imported code\<close>

text \<open>
  The three properties a constructor writes on an instance (lines 57 to 59).
\<close>

definition config_fields :: "string list" where
  "config_fields = [''shaderGenerator'', ''geometryClass'', ''vertexSize'']"

definition same_config :: "store \<Rightarrow> store \<Rightarrow> nat \<Rightarrow> bool" where
  "same_config h h' a = (\<forall>k \<in> set config_fields. get_field h' a k = get_field h a k)"

text \<open>
  What the factory relies on in the code it imports: the base constructor and the
  inherited methods work on their own \<^verbatim>\<open>this\<close>, the generator's constructor on
  the generator it creates; none of them writes the three configuration properties of
  another object that exists already, and none frees an object.
\<close>

definition local_callees :: "module_env \<Rightarrow> bool" where
  "local_callees env =
     (\<forall>this renderer vertex fragment name args h.
        (nxt h \<le> nxt (snd (BaseBatchRenderer_call env this renderer h)) \<and>
         (\<forall>a < nxt h. a \<noteq> this \<longrightarrow>
            same_config h (snd (BaseBatchRenderer_call env this renderer h)) a)) \<and>
        (nxt h \<le> nxt (snd (BatchShaderGenerator_new env vertex fragment h)) \<and>
         (\<forall>a < nxt h. same_config h (snd (BatchShaderGenerator_new env vertex fragment h)) a)) \<and>
        (nxt h \<le> nxt (snd (BaseBatchRenderer_method env name this args h)) \<and>
         (\<forall>a < nxt h. a \<noteq> this \<longrightarrow>
            same_config h (snd (BaseBatchRenderer_method env name this args h)) a)))"

text \<open>
  What a program does with the constructors: it constructs instances and calls their
  methods. A throw is caught by the caller; the store keeps what was written.
\<close>

datatype action = New jsval jsval | Call nat string "jsval list"

definition perform :: "module_env \<Rightarrow> action \<Rightarrow> state \<Rightarrow> state" where
  "perform env act s =
     (case act of
        New f renderer \<Rightarrow> snd (construct env f renderer s)
      | Call inst name args \<Rightarrow> snd (invoke env inst name args s))"

fun run :: "module_env \<Rightarrow> action list \<Rightarrow> state \<Rightarrow> state" where
  "run env [] s = s"
| "run env (act # acts) s = run env acts (perform env act s)"

text \<open>An action uses the object at address \<open>a\<close> when it calls a method on it.\<close>

definition uses :: "action \<Rightarrow> nat \<Rightarrow> bool" where
  "uses act a = (case act of New f renderer \<Rightarrow> False | Call inst name args \<Rightarrow> inst = a)"

subsection \<open>An example environment\<close>

text \<open>
  A concrete instance of the imports, on which the theorems below are run: address 0
  holds \<^verbatim>\<open>BaseBatchRenderer.prototype\<close>, address 1 the class
  \<^verbatim>\<open>BatchGeometry\<close>, address 2 a renderer. The base constructor stores the
  renderer on \<^verbatim>\<open>this\<close>; the generator's constructor stores its two arguments on
  a new object; the inherited methods change nothing.
\<close>

definition example_env :: module_env where
  "example_env =
     \<lparr>defaultVertex = Str ''attribute vec2 aVertexPosition;'',
      defaultFragment = Str ''uniform sampler2D uSamplers[%count%]; %forloop%'',
      BatchGeometry = Ref 1,
      BaseBatchRenderer_prototype = Ref 0,
      BaseBatchRenderer_call = (\<lambda>this renderer h. (None, set_field h this ''renderer'' renderer)),
      BatchShaderGenerator_new =
        (\<lambda>vertex fragment h.
            (Inr (Ref (nxt h)),
             snd (alloc h \<lparr>members = [''vertexSrc'' \<mapsto> vertex, ''fragTemplate'' \<mapsto> fragment],
                           proto = Undefined\<rparr>))),
      BaseBatchRenderer_method = (\<lambda>name this args h. (None, h))\<rparr>"

definition example_state :: state where
  "example_state =
     \<lparr>st = \<lparr>objs = (\<lambda>a. \<lparr>members = Map.empty, proto = Undefined\<rparr>), nxt = 3\<rparr>,
      bodies = Map.empty\<rparr>"

text \<open>
  Two calls of \<^verbatim>\<open>create\<close>, one after the other: the first with no argument, the
  second with \<^verbatim>\<open>{ vertexSize: 7 }\<close>. Then an instance of the second constructor,
  for the renderer at address 2. Last, a call of \<^verbatim>\<open>create\<close> whose options hold
  two keys with the value \<^verbatim>\<open>undefined\<close>.
\<close>

definition example_first :: "jsval \<times> state" where
  "example_first = create example_env None example_state"

definition example_second :: "jsval \<times> state" where
  "example_second = create example_env (Some [''vertexSize'' \<mapsto> Num 7]) (snd example_first)"

definition example_third :: state where
  "example_third = snd (construct example_env (fst example_second) (Ref 2) (snd example_second))"

definition example_undefined :: "jsval \<times> state" where
  "example_undefined =
     create example_env (Some [''vertexSize'' \<mapsto> Undefined, ''fragment'' \<mapsto> Undefined])
       example_state"

text \<open>
  Modelled from the spec: the stride of the standard geometry layout
  (\<^verbatim>\<open>BatchGeometry\<close> is not among the sources). Section 4.2 gives the layout as
  position (2 floats), UV (2 floats), packed colour (1 four-byte value) and texture-unit
  index (1 float or integer), in 32-bit words.
\<close>

definition standard_stride :: int where
  "standard_stride = 2 + 2 + 1 + 1"

section \<open>The shader template expander\<close>

text \<open>
  The two placeholder tokens of a fragment template, as the documentation example of the
  factory writes them (lines 15 and 19 of the source).
\<close>

definition count_placeholder :: string where
  "count_placeholder = ''%count%''"

definition loop_placeholder :: string where
  "loop_placeholder = ''%forloop%''"

text \<open>
  Modelled from the spec: the number of instances of a token in a template, counted as
  the positions of the string at which the token starts.
\<close>

fun count_occ :: "string \<Rightarrow> string \<Rightarrow> nat" where
  "count_occ tok [] = 0"
| "count_occ tok (c # cs) = (if prefix tok (c # cs) then 1 else 0) + count_occ tok cs"

text \<open>
  Modelled from the spec: literal substitution, of every occurrence of the token from
  left to right.
\<close>

function replace_all :: "string \<Rightarrow> string \<Rightarrow> string \<Rightarrow> string" where
  "replace_all tok rep [] = []"
| "replace_all tok rep (c # cs) =
     (if tok \<noteq> [] \<and> prefix tok (c # cs)
      then rep @ replace_all tok rep (drop (length tok) (c # cs))
      else c # replace_all tok rep cs)"
  by pat_completeness auto
termination
  by (relation "measure (\<lambda>(tok, rep, s). length s)") auto

text \<open>Modelled from the spec: the decimal literal of a number.\<close>

function decimal :: "nat \<Rightarrow> string" where
  "decimal n =
     (if n < 10 then [''0123456789'' ! n]
      else decimal (n div 10) @ [''0123456789'' ! (n mod 10)])"
  by pat_completeness auto
termination
  by (relation "measure id") auto

declare decimal.simps [simp del]

datatype config_error = MissingPlaceholder

text \<open>
  Modelled from the spec: \<^verbatim>\<open>expand(fragmentTemplate, maxTextureUnits)\<close> of
  section 4.1 (the shader generator \<^verbatim>\<open>BatchShaderGenerator\<close> is not among the
  sources). The count-placeholder is replaced by the decimal literal of
  \<open>maxTextureUnits\<close>, the loop-placeholder by \<open>maxTextureUnits\<close> repetitions of a
  conditional code block, the repetition for unit \<open>i\<close> being \<open>block i\<close>; a template
  that lacks one of the placeholders is a configuration error. The text of the block is
  a parameter: the spec fixes only that it tests against the unit index.
\<close>

definition expand :: "(nat \<Rightarrow> string) \<Rightarrow> string \<Rightarrow> nat \<Rightarrow> config_error + string" where
  "expand block fragmentTemplate maxTextureUnits =
     (if count_occ count_placeholder fragmentTemplate = 0
         \<or> count_occ loop_placeholder fragmentTemplate = 0
      then Inl MissingPlaceholder
      else Inr (replace_all loop_placeholder (concat (map block [0..<maxTextureUnits]))
                  (replace_all count_placeholder (decimal maxTextureUnits) fragmentTemplate)))"

text \<open>A block for the examples: the unit index between angle brackets.\<close>

definition example_block :: "nat \<Rightarrow> string" where
  "example_block i = ''<'' @ decimal i @ ''>''"

subsection \<open>The collaborators of the constructor, after the specification\<close>

text \<open>
  Modelled from the spec: the constructor of the engine,
  \<^verbatim>\<open>BaseBatchRenderer.call(this, renderer)\<close> (\<^verbatim>\<open>BaseBatchRenderer\<close> is not
  among the sources). Section 6: the device handle exposes \<^verbatim>\<open>maxTextureUnits\<close>,
  queried once at engine construction. The constructor reads it from the renderer it is
  given and keeps it on \<^verbatim>\<open>this\<close>; a renderer that is no object makes the read
  throw. Line 56 of the source gives this constructor the renderer and nothing else.
\<close>

definition spec_BaseBatchRenderer_call :: "nat \<Rightarrow> jsval \<Rightarrow> store \<Rightarrow> error option \<times> store" where
  "spec_BaseBatchRenderer_call this renderer h =
     (case renderer of
        Ref d \<Rightarrow> (None, set_field h this ''maxTextureUnits'' (get_field h d ''maxTextureUnits''))
      | _ \<Rightarrow> (Some (Thrown (Str ''TypeError'')), h))"

text \<open>
  Modelled from the spec: the constructor of the shader generator,
  \<^verbatim>\<open>new BatchShaderGenerator(vertex, fragment)\<close> (\<^verbatim>\<open>BatchShaderGenerator\<close> is
  not among the sources). Sections 4.1 and 7: a template that lacks a placeholder is a
  configuration error, signalled at construction. Line 57 of the source gives this
  constructor the vertex source and the fragment template and nothing else; \<open>expand\<close>
  needs the number of texture units as well, so the constructor keeps the two sources
  on the new generator for the expansion.
\<close>

definition spec_BatchShaderGenerator_new ::
  "jsval \<Rightarrow> jsval \<Rightarrow> store \<Rightarrow> (error + jsval) \<times> store" where
  "spec_BatchShaderGenerator_new vertex fragment h =
     (case fragment of
        Str t \<Rightarrow>
          (if count_occ count_placeholder t = 0 \<or> count_occ loop_placeholder t = 0
           then (Inl (Thrown (Str ''Error'')), h)
           else (Inr (Ref (nxt h)),
                 snd (alloc h \<lparr>members = [''vertexSrc'' \<mapsto> vertex, ''fragTemplate'' \<mapsto> fragment],
                               proto = Undefined\<rparr>)))
      | _ \<Rightarrow> (Inl (Thrown (Str ''TypeError'')), h))"

text \<open>
  Modelled from the spec: the imports with these two collaborators; the default sources,
  the geometry class and the prototype are those of the example environment.
\<close>

definition spec_env :: module_env where
  "spec_env = example_env\<lparr>BaseBatchRenderer_call := spec_BaseBatchRenderer_call,
                            BatchShaderGenerator_new := spec_BatchShaderGenerator_new\<rparr>"



text \<open>The default fragment template of the example environment.\<close>

definition example_template :: string where
  "example_template = ''uniform sampler2D uSamplers[%count%]; %forloop%''"

section \<open>The batch renderer engine\<close>

text \<open>
  Modelled from the spec: the drawable objects, the batch descriptors and the engine
  state of sections 3 and 4.3 (the engine \<^verbatim>\<open>BatchRenderer\<close> that the factory
  imports as \<^verbatim>\<open>BaseBatchRenderer\<close> is not among the sources). A drawable has one
  texture, a number of vertices and a blend mode. The engine holds the texture unit slot
  table (texture identifier and slot, in order of assignment), the drawables accumulated
  in the shared geometry buffer, and the batch descriptors emitted so far.
\<close>

record drawable =
  texture :: nat
  vertices :: nat
  blendMode :: nat

record batch =
  slots :: "(nat \<times> nat) list"
  objects :: "drawable list"

record engine =
  slot_table :: "(nat \<times> nat) list"
  buffer :: "drawable list"
  emitted :: "batch list"

text \<open>
  Modelled from the spec: the engine between two render passes, with an empty slot
  table and an empty buffer.
\<close>

definition empty_engine :: engine where
  "empty_engine = \<lparr>slot_table = [], buffer = [], emitted = []\<rparr>"

text \<open>
  Modelled from the spec: a flush splits the accumulated drawables at every change of
  blend mode, a draw call having one blend mode; only adjacent drawables are coalesced.
\<close>

fun split_runs :: "drawable list \<Rightarrow> drawable list list" where
  "split_runs [] = []"
| "split_runs (d # ds) =
     (case split_runs ds of
        [] \<Rightarrow> [[d]]
      | r # rs \<Rightarrow> (if blendMode d = blendMode (hd r) then (d # r) # rs else [d] # r # rs))"

text \<open>
  Modelled from the spec: \<^verbatim>\<open>flush()\<close> emits the accumulated drawables as batch
  descriptors (nothing when nothing is accumulated) and resets the slot table and the
  buffer.
\<close>

definition flush :: "engine \<Rightarrow> engine" where
  "flush e =
     \<lparr>slot_table = [],
      buffer = [],
      emitted = emitted e @ map (\<lambda>r. \<lparr>slots = slot_table e, objects = r\<rparr>) (split_runs (buffer e))\<rparr>"

text \<open>
  Modelled from the spec: the slot of a drawable's texture. The texture reuses its slot
  if it has one, takes the next free slot if the table has fewer than
  \<open>maxTextureUnits\<close> entries, and otherwise forces a flush and takes slot 0.
\<close>

definition assign_slot :: "nat \<Rightarrow> engine \<Rightarrow> drawable \<Rightarrow> engine" where
  "assign_slot maxTextureUnits e d =
     (case map_of (slot_table e) (texture d) of
        Some slot \<Rightarrow> e
      | None \<Rightarrow>
          (if length (slot_table e) < maxTextureUnits
           then e\<lparr>slot_table := slot_table e @ [(texture d, length (slot_table e))]\<rparr>
           else (flush e)\<lparr>slot_table := [(texture d, 0)]\<rparr>))"

text \<open>
  Modelled from the spec: \<^verbatim>\<open>render(drawable)\<close>. A drawable whose vertices would
  overflow the buffer forces a flush first; then its texture is given a slot and the
  drawable is accumulated.
\<close>

definition render :: "nat \<Rightarrow> nat \<Rightarrow> engine \<Rightarrow> drawable \<Rightarrow> engine" where
  "render maxTextureUnits capacity e d =
     (let e1 = (if sum_list (map vertices (buffer e)) + vertices d > capacity
                then flush e else e);
          e2 = assign_slot maxTextureUnits e1 d
      in e2\<lparr>buffer := buffer e2 @ [d]\<rparr>)"

text \<open>
  Modelled from the spec: one render pass, \<^verbatim>\<open>render\<close> for every drawable in draw
  order and a final \<^verbatim>\<open>flush\<close>.
\<close>

definition render_pass :: "nat \<Rightarrow> nat \<Rightarrow> drawable list \<Rightarrow> engine" where
  "render_pass maxTextureUnits capacity ds =
     flush (foldl (render maxTextureUnits capacity) empty_engine ds)"

text \<open>
  Five drawables, each with a texture of its own, four vertices and the same blend mode.
\<close>

definition example_drawables :: "drawable list" where
  "example_drawables =
     map (\<lambda>t. \<lparr>texture = t, vertices = 4, blendMode = 0\<rparr>) [10, 11, 12, 13, 14]"

section \<open>Basic facts\<close>

lemma get_field_set_field:
  "get_field (set_field h a k v) a' k' = (if a' = a \<and> k' = k then v else get_field h a' k')"
  by (simp add: get_field_def set_field_def get_def)

lemma resolve_eq:
  "resolve env options =
     BatchPlugin
       (case option_of options ''vertex'' of None \<Rightarrow> defaultVertex env | Some v \<Rightarrow> v)
       (case option_of options ''fragment'' of None \<Rightarrow> defaultFragment env | Some v \<Rightarrow> v)
       (case option_of options ''vertexSize'' of None \<Rightarrow> Num 6 | Some v \<Rightarrow> v)
       (case option_of options ''geometryClass'' of None \<Rightarrow> BatchGeometry env | Some v \<Rightarrow> v)"
  by (cases options)
     (simp_all add: resolve_def Object_assign_def defaults_def get_def option_of_def
        map_add_def split: option.splits)

lemma closure_of_create:
  "closure_of (snd (create env options s)) (fst (create env options s)) = Some (resolve env options)"
  by (simp add: create_def alloc_def set_field_def closure_of_def Let_def)

lemma create_fst: "fst (create env options s) = Ref (Suc (nxt (st s)))"
  by (simp add: create_def alloc_def Let_def)

lemma create_bodies:
  "bodies (snd (create env options s)) = (bodies s)(Suc (nxt (st s)) \<mapsto> resolve env options)"
  by (simp add: create_def alloc_def Let_def)

lemma create_nxt: "nxt (st (snd (create env options s))) = Suc (Suc (nxt (st s)))"
  by (simp add: create_def alloc_def set_field_def Let_def)

lemma create_objs_old:
  "a < nxt (st s) \<Longrightarrow> objs (st (snd (create env options s))) a = objs (st s) a"
  by (simp add: create_def alloc_def set_field_def Let_def)

lemma create_prototype:
  "field_of (snd (create env options s)) (fst (create env options s)) ''prototype''
     = BaseBatchRenderer_prototype env"
  by (simp add: create_def alloc_def set_field_def Let_def field_of_def get_field_def get_def)

lemma create_store_indep:
  "st (snd (create env o1 s)) = st (snd (create env o2 s))"
  by (simp add: create_def alloc_def set_field_def Let_def)

lemma construct_create:
  "construct env (fst (create env options s)) renderer (snd (create env options s)) =
     (case run_body env (resolve env options) (Suc (Suc (nxt (st s)))) renderer
             (snd (alloc (st (snd (create env options s)))
                 \<lparr>members = Map.empty, proto = BaseBatchRenderer_prototype env\<rparr>)) of
        (Some e, h') \<Rightarrow> (Inl e, (snd (create env options s))\<lparr>st := h'\<rparr>)
      | (None, h') \<Rightarrow> (Inr (Ref (Suc (Suc (nxt (st s))))), (snd (create env options s))\<lparr>st := h'\<rparr>))"
  by (simp add: construct_def create_def alloc_def set_field_def Let_def get_field_def get_def
        split: prod.splits option.splits)

lemma run_body_returns:
  assumes "run_body env cl this renderer h = (None, h')"
  shows "\<exists>h1 h2 g. BaseBatchRenderer_call env this renderer h = (None, h1)
           \<and> BatchShaderGenerator_new env (cl_vertex cl) (cl_fragment cl) h1 = (Inr g, h2)
           \<and> get_field h' this ''shaderGenerator'' = g
           \<and> get_field h' this ''geometryClass'' = cl_geometryClass cl
           \<and> get_field h' this ''vertexSize'' = cl_vertexSize cl"
  using assms
  by (cases cl)
     (auto simp: run_body_def get_field_set_field split: prod.splits option.splits sum.splits)

lemma construct_returns:
  assumes "construct env f renderer s = (Inr inst, s')"
  shows "\<exists>cl h1 h2. closure_of s f = Some cl
           \<and> BatchShaderGenerator_new env (cl_vertex cl) (cl_fragment cl) h1
               = (Inr (field_of s' inst ''shaderGenerator''), h2)
           \<and> field_of s' inst ''geometryClass'' = cl_geometryClass cl
           \<and> field_of s' inst ''vertexSize'' = cl_vertexSize cl
           \<and> bodies s' = bodies s"
proof -
  from assms obtain a where f: "f = Ref a"
    by (cases f) (simp_all add: construct_def)
  from assms f obtain cl where cl: "bodies s a = Some cl"
    by (cases "bodies s a") (simp_all add: construct_def)
  let ?h0 = "snd (alloc (st s) \<lparr>members = Map.empty, proto = get_field (st s) a ''prototype''\<rparr>)"
  from assms f cl obtain h' where
    rb: "run_body env cl (nxt (st s)) renderer ?h0 = (None, h')"
    and inst: "inst = Ref (nxt (st s))" and s': "s' = s\<lparr>st := h'\<rparr>"
    by (auto simp: construct_def alloc_def Let_def split: prod.splits option.splits)
  from run_body_returns [OF rb] show ?thesis
    using f cl inst s' by (auto simp: closure_of_def field_of_def)
qed

lemma construct_configured:
  assumes "construct env f renderer s = (Inr inst, s')"
    and "closure_of s f = Some (resolve env c)"
  shows "field_of s' inst ''vertexSize''
           = (case option_of c ''vertexSize'' of None \<Rightarrow> Num 6 | Some v \<Rightarrow> v)
       \<and> field_of s' inst ''geometryClass''
           = (case option_of c ''geometryClass'' of None \<Rightarrow> BatchGeometry env | Some v \<Rightarrow> v)
       \<and> (\<exists>h1 h2.
             BatchShaderGenerator_new env
               (case option_of c ''vertex'' of None \<Rightarrow> defaultVertex env | Some v \<Rightarrow> v)
               (case option_of c ''fragment'' of None \<Rightarrow> defaultFragment env | Some v \<Rightarrow> v)
               h1
             = (Inr (field_of s' inst ''shaderGenerator''), h2))"
proof -
  from construct_returns [OF assms(1)] assms(2) obtain h1 h2 where
    "BatchShaderGenerator_new env (cl_vertex (resolve env c)) (cl_fragment (resolve env c)) h1
       = (Inr (field_of s' inst ''shaderGenerator''), h2)"
    and "field_of s' inst ''geometryClass'' = cl_geometryClass (resolve env c)"
    and "field_of s' inst ''vertexSize'' = cl_vertexSize (resolve env c)"
    by auto
  then show ?thesis
    by (auto simp: resolve_eq)
qed

lemma run_body_same_sources:
  assumes "cl_vertex cl = cl_vertex cl'" "cl_fragment cl = cl_fragment cl'"
  shows "fst (run_body env cl this renderer h) = fst (run_body env cl' this renderer h)"
  using assms
  by (cases cl; cases cl')
     (simp add: run_body_def split: prod.splits option.splits sum.splits)

subsection \<open>What constructing and calling leave unchanged\<close>

lemma same_config_refl: "same_config h h a"
  by (simp add: same_config_def)

lemma same_config_trans:
  "same_config h h1 a \<Longrightarrow> same_config h1 h2 a \<Longrightarrow> same_config h h2 a"
  by (simp add: same_config_def)

lemma same_config_set_field: "a \<noteq> b \<Longrightarrow> same_config h (set_field h b k v) a"
  by (simp add: same_config_def get_field_set_field)

lemma nxt_set_field: "nxt (set_field h b k v) = nxt h"
  by (simp add: set_field_def)

lemma same_config_alloc: "a < nxt h \<Longrightarrow> same_config h (snd (alloc h ob)) a"
  by (simp add: same_config_def alloc_def get_field_def)

lemma local_base:
  assumes "local_callees env" and "BaseBatchRenderer_call env this renderer h = (r, h1)"
  shows "nxt h \<le> nxt h1" and "a < nxt h \<Longrightarrow> a \<noteq> this \<Longrightarrow> same_config h h1 a"
proof -
  from assms(1) have
    "nxt h \<le> nxt (snd (BaseBatchRenderer_call env this renderer h))
     \<and> (\<forall>a < nxt h. a \<noteq> this \<longrightarrow>
            same_config h (snd (BaseBatchRenderer_call env this renderer h)) a)"
    unfolding local_callees_def by blast
  with assms(2) show "nxt h \<le> nxt h1" and "a < nxt h \<Longrightarrow> a \<noteq> this \<Longrightarrow> same_config h h1 a"
    by simp_all
qed

lemma local_generator:
  assumes "local_callees env" and "BatchShaderGenerator_new env v f h = (r, h1)"
  shows "nxt h \<le> nxt h1" and "a < nxt h \<Longrightarrow> same_config h h1 a"
proof -
  from assms(1) have
    "nxt h \<le> nxt (snd (BatchShaderGenerator_new env v f h))
     \<and> (\<forall>a < nxt h. same_config h (snd (BatchShaderGenerator_new env v f h)) a)"
    unfolding local_callees_def by blast
  with assms(2) show "nxt h \<le> nxt h1" and "a < nxt h \<Longrightarrow> same_config h h1 a"
    by simp_all
qed

lemma local_method:
  assumes "local_callees env" and "BaseBatchRenderer_method env name this args h = (r, h1)"
  shows "nxt h \<le> nxt h1" and "a < nxt h \<Longrightarrow> a \<noteq> this \<Longrightarrow> same_config h h1 a"
proof -
  from assms(1) have
    "nxt h \<le> nxt (snd (BaseBatchRenderer_method env name this args h))
     \<and> (\<forall>a < nxt h. a \<noteq> this \<longrightarrow>
            same_config h (snd (BaseBatchRenderer_method env name this args h)) a)"
    unfolding local_callees_def by blast
  with assms(2) show "nxt h \<le> nxt h1" and "a < nxt h \<Longrightarrow> a \<noteq> this \<Longrightarrow> same_config h h1 a"
    by simp_all
qed

lemma run_body_frame:
  assumes lc: "local_callees env" and a: "a < nxt h" "a \<noteq> this"
  shows "same_config h (snd (run_body env cl this renderer h)) a
         \<and> nxt h \<le> nxt (snd (run_body env cl this renderer h))"
proof -
  obtain v f vs gc where cl: "cl = BatchPlugin v f vs gc"
    by (cases cl)
  obtain r1 h1 where b: "BaseBatchRenderer_call env this renderer h = (r1, h1)"
    by (cases "BaseBatchRenderer_call env this renderer h")
  note b1 = local_base [OF lc b]
  have s1: "same_config h h1 a" and n1: "nxt h \<le> nxt h1"
    using b1 a by simp_all
  show ?thesis
  proof (cases r1)
    case (Some e)
    with b cl s1 n1 show ?thesis by (simp add: run_body_def)
  next
    case None
    obtain r2 h2 where g: "BatchShaderGenerator_new env v f h1 = (r2, h2)"
      by (cases "BatchShaderGenerator_new env v f h1")
    note g1 = local_generator [OF lc g]
    from a n1 have "a < nxt h1" by simp
    with g1 have s2: "same_config h1 h2 a" and n2: "nxt h1 \<le> nxt h2"
      by simp_all
    from s1 s2 have s: "same_config h h2 a"
      by (rule same_config_trans)
    show ?thesis
    proof (cases r2)
      case (Inl e)
      with None b g cl s n1 n2 show ?thesis by (simp add: run_body_def)
    next
      case (Inr gen)
      let ?h3 = "set_field h2 this ''shaderGenerator'' gen"
      let ?h4 = "set_field ?h3 this ''geometryClass'' gc"
      let ?h5 = "set_field ?h4 this ''vertexSize'' vs"
      have "same_config h ?h5 a"
        using s a(2)
        by (simp add: same_config_def get_field_set_field)
      moreover have "nxt ?h5 = nxt h2"
        by (simp add: nxt_set_field)
      ultimately show ?thesis
        using None Inr b g cl n1 n2 by (simp add: run_body_def)
    qed
  qed
qed

lemma construct_frame:
  assumes lc: "local_callees env" and a: "a < nxt (st s)"
  shows "same_config (st s) (st (snd (construct env f renderer s))) a
         \<and> nxt (st s) \<le> nxt (st (snd (construct env f renderer s)))"
proof (cases f)
  case (Ref b)
  show ?thesis
  proof (cases "bodies s b")
    case None
    with Ref show ?thesis by (simp add: construct_def same_config_refl)
  next
    case (Some cl)
    let ?ob = "\<lparr>members = Map.empty, proto = get_field (st s) b ''prototype''\<rparr>"
    let ?h0 = "snd (alloc (st s) ?ob)"
    have s0: "same_config (st s) ?h0 a"
      using a by (rule same_config_alloc)
    have n0: "nxt ?h0 = Suc (nxt (st s))"
      by (simp add: alloc_def)
    from a n0 have "a < nxt ?h0" "a \<noteq> nxt (st s)" by simp_all
    from run_body_frame [OF lc this, of cl renderer]
    have "same_config ?h0 (snd (run_body env cl (nxt (st s)) renderer ?h0)) a"
      and "nxt ?h0 \<le> nxt (snd (run_body env cl (nxt (st s)) renderer ?h0))"
      by simp_all
    with s0 n0 have "same_config (st s) (snd (run_body env cl (nxt (st s)) renderer ?h0)) a"
      and "nxt (st s) \<le> nxt (snd (run_body env cl (nxt (st s)) renderer ?h0))"
      by (auto intro: same_config_trans)
    then show ?thesis
      using Ref Some
      by (auto simp: construct_def alloc_def Let_def split: prod.splits option.splits)
  qed
qed (simp_all add: construct_def same_config_refl)

lemma invoke_frame:
  assumes lc: "local_callees env" and a: "a < nxt (st s)" "a \<noteq> inst"
  shows "same_config (st s) (st (snd (invoke env inst name args s))) a
         \<and> nxt (st s) \<le> nxt (st (snd (invoke env inst name args s)))"
proof -
  obtain r h1 where m: "BaseBatchRenderer_method env name inst args (st s) = (r, h1)"
    by (cases "BaseBatchRenderer_method env name inst args (st s)")
  from local_method [OF lc m] a have "same_config (st s) h1 a" "nxt (st s) \<le> nxt h1"
    by simp_all
  with m show ?thesis
    by (simp add: invoke_def same_config_refl)
qed

lemma perform_frame:
  assumes "local_callees env" and "a < nxt (st s)" and "\<not> uses act a"
  shows "same_config (st s) (st (perform env act s)) a
         \<and> nxt (st s) \<le> nxt (st (perform env act s))"
proof (cases act)
  case (New f renderer)
  with construct_frame [OF assms(1,2)] show ?thesis
    by (simp add: perform_def)
next
  case (Call inst name args)
  with assms(3) have "a \<noteq> inst"
    by (simp add: uses_def)
  with invoke_frame [OF assms(1,2)] Call show ?thesis
    by (simp add: perform_def)
qed

lemma run_frame:
  assumes "local_callees env"
  shows "a < nxt (st s) \<Longrightarrow> \<forall>act \<in> set acts. \<not> uses act a \<Longrightarrow>
         same_config (st s) (st (run env acts s)) a"
proof (induction acts arbitrary: s)
  case Nil
  show ?case by (simp add: same_config_refl)
next
  case (Cons act acts)
  from Cons.prems have u: "\<not> uses act a" by simp
  from perform_frame [OF assms Cons.prems(1) u]
  have p: "same_config (st s) (st (perform env act s)) a"
    and n: "nxt (st s) \<le> nxt (st (perform env act s))"
    by simp_all
  from Cons.prems(1) n have "a < nxt (st (perform env act s))" by simp
  from Cons.IH [OF this] Cons.prems(2)
  have "same_config (st (perform env act s)) (st (run env acts (perform env act s))) a"
    by simp
  with p show ?case
    by (auto intro: same_config_trans)
qed

lemma bodies_construct: "bodies (snd (construct env f renderer s)) = bodies s"
  by (cases f)
     (auto simp: construct_def alloc_def Let_def split: prod.splits option.splits)

lemma bodies_perform: "bodies (perform env act s) = bodies s"
  by (cases act) (auto simp: perform_def bodies_construct invoke_def split: prod.splits)

lemma bodies_run: "bodies (run env acts s) = bodies s"
  by (induction acts arbitrary: s) (simp_all add: bodies_perform)

lemma closure_of_run: "closure_of (run env acts s) f = closure_of s f"
  by (cases f) (simp_all add: closure_of_def bodies_run)

lemma closure_of_second_create:
  "closure_of (snd (create env c2 (snd (create env c1 s)))) (fst (create env c1 s))
     = Some (resolve env c1)"
  by (simp add: closure_of_def create_fst create_bodies create_nxt)

subsection \<open>The example, evaluated\<close>

lemma example_first_fst: "fst example_first = Ref 4"
  by (simp add: example_first_def create_fst example_state_def)

lemma example_first_nxt: "nxt (st (snd example_first)) = 5"
  by (simp add: example_first_def create_nxt example_state_def)

lemma example_second_fst: "fst example_second = Ref 6"
  by (simp add: example_second_def create_fst example_first_nxt)

lemma example_construct_first:
  "fst (construct example_env (fst example_first) (Ref 2) (snd example_first)) = Inr (Ref 5)"
  by (simp add: example_first_def construct_create run_body_def resolve_eq example_env_def
        example_state_def option_of_def split: prod.splits)

lemma example_construct_second:
  "fst (construct example_env (fst example_second) (Ref 2) (snd example_second)) = Inr (Ref 7)"
  by (simp add: example_second_def construct_create run_body_def resolve_eq example_env_def
        example_first_nxt option_of_def split: prod.splits)

lemma example_env_construct:
  "bodies s a = Some cl \<Longrightarrow>
   fst (construct example_env (Ref a) renderer s) = Inr (Ref (nxt (st s)))"
  by (cases cl)
     (simp add: construct_def alloc_def Let_def run_body_def example_env_def split: prod.splits)

lemma example_construct_first_later:
  "fst (construct example_env (fst example_first) (Ref 2) (snd example_second)) = Inr (Ref 7)"
proof -
  have "bodies (snd example_second) 4 = Some (resolve example_env None)"
    by (simp add: example_second_def create_bodies example_first_nxt)
       (simp add: example_first_def create_bodies example_state_def)
  from example_env_construct [OF this] show ?thesis
    by (simp add: example_first_fst example_second_def create_nxt example_first_nxt)
qed

lemma local_example_env: "local_callees example_env"
  by (simp add: local_callees_def example_env_def same_config_def get_field_set_field
        set_field_def alloc_def get_field_def)

lemma example_third_nxt: "nxt (st example_third) = 9"
  by (simp add: example_third_def example_second_def construct_create run_body_def resolve_eq
        example_env_def example_first_nxt option_of_def alloc_def set_field_def create_nxt
        split: prod.splits)

lemma example_third_vertexSize: "get_field (st example_third) 7 ''vertexSize'' = Num 7"
proof -
  let ?c = "construct example_env (fst example_second) (Ref 2) (snd example_second)"
  have c: "?c = (Inr (Ref 7), example_third)"
    using example_construct_second by (simp add: example_third_def prod_eq_iff)
  have "closure_of (snd example_second) (fst example_second)
          = Some (resolve example_env (Some [''vertexSize'' \<mapsto> Num 7]))"
    by (simp add: example_second_def closure_of_create)
  from construct_configured [OF c this] show ?thesis
    by (simp add: field_of_def option_of_def)
qed

section \<open>Defaults of the factory\<close>

text \<open>
  Claim C1. For every options argument of \<^verbatim>\<open>create\<close>, the constructor returned
  closes over, for each of the four keys, the value the options give for the key if the
  key is present and the documented default if it is absent: the imported default vertex
  source, the imported default fragment template, 6 for \<^verbatim>\<open>vertexSize\<close> and the
  class \<^verbatim>\<open>BatchGeometry\<close> for \<^verbatim>\<open>geometryClass\<close>; a key that is present
  replaces its own default only. Every instance the constructor returns carries these
  values: \<^verbatim>\<open>vertexSize\<close> and \<^verbatim>\<open>geometryClass\<close> as properties, and as
  \<^verbatim>\<open>shaderGenerator\<close> the generator constructed from the vertex source and the
  fragment template.
\<close>

theorem create_defaults:
  "closure_of (snd (create env options s)) (fst (create env options s)) =
     Some (BatchPlugin
       (case option_of options ''vertex'' of None \<Rightarrow> defaultVertex env | Some v \<Rightarrow> v)
       (case option_of options ''fragment'' of None \<Rightarrow> defaultFragment env | Some v \<Rightarrow> v)
       (case option_of options ''vertexSize'' of None \<Rightarrow> Num 6 | Some v \<Rightarrow> v)
       (case option_of options ''geometryClass'' of None \<Rightarrow> BatchGeometry env | Some v \<Rightarrow> v))
   \<and> (\<forall>inst s'.
         construct env (fst (create env options s)) renderer (snd (create env options s))
           = (Inr inst, s') \<longrightarrow>
         field_of s' inst ''vertexSize''
           = (case option_of options ''vertexSize'' of None \<Rightarrow> Num 6 | Some v \<Rightarrow> v)
       \<and> field_of s' inst ''geometryClass''
           = (case option_of options ''geometryClass'' of None \<Rightarrow> BatchGeometry env | Some v \<Rightarrow> v)
       \<and> (\<exists>h1 h2.
             BatchShaderGenerator_new env
               (case option_of options ''vertex'' of None \<Rightarrow> defaultVertex env | Some v \<Rightarrow> v)
               (case option_of options ''fragment'' of None \<Rightarrow> defaultFragment env | Some v \<Rightarrow> v)
               h1
             = (Inr (field_of s' inst ''shaderGenerator''), h2)))"
proof (intro conjI allI impI)
  show "closure_of (snd (create env options s)) (fst (create env options s)) =
     Some (BatchPlugin
       (case option_of options ''vertex'' of None \<Rightarrow> defaultVertex env | Some v \<Rightarrow> v)
       (case option_of options ''fragment'' of None \<Rightarrow> defaultFragment env | Some v \<Rightarrow> v)
       (case option_of options ''vertexSize'' of None \<Rightarrow> Num 6 | Some v \<Rightarrow> v)
       (case option_of options ''geometryClass'' of None \<Rightarrow> BatchGeometry env | Some v \<Rightarrow> v))"
    by (simp add: closure_of_create resolve_eq)
next
  fix inst s'
  assume c: "construct env (fst (create env options s)) renderer (snd (create env options s))
           = (Inr inst, s')"
  from construct_returns [OF c] obtain cl h1 h2 where
    cl: "closure_of (snd (create env options s)) (fst (create env options s)) = Some cl"
    and g: "BatchShaderGenerator_new env (cl_vertex cl) (cl_fragment cl) h1
               = (Inr (field_of s' inst ''shaderGenerator''), h2)"
    and gc: "field_of s' inst ''geometryClass'' = cl_geometryClass cl"
    and vs: "field_of s' inst ''vertexSize'' = cl_vertexSize cl"
    by blast
  from cl have eq: "cl = resolve env options"
    by (simp add: closure_of_create)
  show "field_of s' inst ''vertexSize''
           = (case option_of options ''vertexSize'' of None \<Rightarrow> Num 6 | Some v \<Rightarrow> v)"
    using vs by (simp add: eq resolve_eq)
  show "field_of s' inst ''geometryClass''
           = (case option_of options ''geometryClass'' of None \<Rightarrow> BatchGeometry env | Some v \<Rightarrow> v)"
    using gc by (simp add: eq resolve_eq)
  show "\<exists>h1 h2.
             BatchShaderGenerator_new env
               (case option_of options ''vertex'' of None \<Rightarrow> defaultVertex env | Some v \<Rightarrow> v)
               (case option_of options ''fragment'' of None \<Rightarrow> defaultFragment env | Some v \<Rightarrow> v)
               h1
             = (Inr (field_of s' inst ''shaderGenerator''), h2)"
    using g by (auto simp: eq resolve_eq)
qed

text \<open>
  The theorem at the example: the options give \<^verbatim>\<open>vertexSize\<close> 7 and nothing
  else; the instance has \<^verbatim>\<open>vertexSize\<close> 7 and the default geometry class.
\<close>

theorem create_defaults_witness:
  "fst (construct example_env (fst example_second) (Ref 2) (snd example_second)) = Inr (Ref 7)
   \<and> field_of (snd (construct example_env (fst example_second) (Ref 2) (snd example_second)))
        (Ref 7) ''vertexSize'' = Num 7
   \<and> field_of (snd (construct example_env (fst example_second) (Ref 2) (snd example_second)))
        (Ref 7) ''geometryClass'' = Ref 1"
proof -
  let ?o = "Some [''vertexSize'' \<mapsto> Num 7]"
  let ?c = "construct example_env (fst (create example_env ?o (snd example_first))) (Ref 2)
              (snd (create example_env ?o (snd example_first)))"
  have c: "?c = (Inr (Ref 7), snd ?c)"
    using example_construct_second by (simp add: example_second_def prod_eq_iff)
  from create_defaults [of example_env ?o "snd example_first" "Ref 2"] c
  have "field_of (snd ?c) (Ref 7) ''vertexSize''
          = (case option_of ?o ''vertexSize'' of None \<Rightarrow> Num 6 | Some v \<Rightarrow> v)
      \<and> field_of (snd ?c) (Ref 7) ''geometryClass''
          = (case option_of ?o ''geometryClass'' of None \<Rightarrow> BatchGeometry example_env | Some v \<Rightarrow> v)"
    by blast
  moreover have "BatchGeometry example_env = Ref 1"
    by (simp add: example_env_def)
  ultimately show ?thesis
    using example_construct_second by (simp add: example_second_def option_of_def)
qed

text \<open>
  Claim C9. The defaults apply only to a key that is absent. When the options contain
  one of the keys \<^verbatim>\<open>vertex\<close>, \<^verbatim>\<open>fragment\<close>, \<^verbatim>\<open>vertexSize\<close> or
  \<^verbatim>\<open>geometryClass\<close> with the value \<^verbatim>\<open>undefined\<close>, the constructor returned
  uses \<^verbatim>\<open>undefined\<close> for that setting and not the default, and its instances
  carry \<^verbatim>\<open>undefined\<close> as \<^verbatim>\<open>vertexSize\<close> or \<^verbatim>\<open>geometryClass\<close>.
\<close>

theorem undefined_option_overrides:
  "(option_of options ''vertex'' = Some Undefined \<longrightarrow>
      cl_vertex (the (closure_of (snd (create env options s)) (fst (create env options s)))) = Undefined)
   \<and> (option_of options ''fragment'' = Some Undefined \<longrightarrow>
      cl_fragment (the (closure_of (snd (create env options s)) (fst (create env options s)))) = Undefined)
   \<and> (option_of options ''vertexSize'' = Some Undefined \<longrightarrow>
      cl_vertexSize (the (closure_of (snd (create env options s)) (fst (create env options s)))) = Undefined)
   \<and> (option_of options ''geometryClass'' = Some Undefined \<longrightarrow>
      cl_geometryClass (the (closure_of (snd (create env options s)) (fst (create env options s)))) = Undefined)
   \<and> (\<forall>inst s'.
         construct env (fst (create env options s)) renderer (snd (create env options s))
           = (Inr inst, s') \<longrightarrow>
         (option_of options ''vertexSize'' = Some Undefined \<longrightarrow>
            field_of s' inst ''vertexSize'' = Undefined)
       \<and> (option_of options ''geometryClass'' = Some Undefined \<longrightarrow>
            field_of s' inst ''geometryClass'' = Undefined))"
proof (intro conjI allI impI)
  fix inst s'
  assume c: "construct env (fst (create env options s)) renderer (snd (create env options s))
           = (Inr inst, s')"
  from construct_returns [OF c] obtain cl where
    cl: "closure_of (snd (create env options s)) (fst (create env options s)) = Some cl"
    and gc: "field_of s' inst ''geometryClass'' = cl_geometryClass cl"
    and vs: "field_of s' inst ''vertexSize'' = cl_vertexSize cl"
    by blast
  from cl have eq: "cl = resolve env options"
    by (simp add: closure_of_create)
  { assume "option_of options ''vertexSize'' = Some Undefined"
    then show "field_of s' inst ''vertexSize'' = Undefined"
      using vs by (simp add: eq resolve_eq) }
  { assume "option_of options ''geometryClass'' = Some Undefined"
    then show "field_of s' inst ''geometryClass'' = Undefined"
      using gc by (simp add: eq resolve_eq) }
qed (simp_all add: closure_of_create resolve_eq)

text \<open>
  The theorem at the example: \<^verbatim>\<open>vertexSize\<close> and \<^verbatim>\<open>fragment\<close> are present
  and \<^verbatim>\<open>undefined\<close>; the vertex source, which is absent, keeps its default.
\<close>

theorem undefined_option_overrides_witness:
  "cl_vertexSize (the (closure_of (snd example_undefined) (fst example_undefined))) = Undefined
   \<and> cl_fragment (the (closure_of (snd example_undefined) (fst example_undefined))) = Undefined
   \<and> cl_vertex (the (closure_of (snd example_undefined) (fst example_undefined)))
       = defaultVertex example_env"
proof -
  let ?o = "Some [''vertexSize'' \<mapsto> Undefined, ''fragment'' \<mapsto> Undefined]"
  have "option_of ?o ''vertexSize'' = Some Undefined" "option_of ?o ''fragment'' = Some Undefined"
    by (simp_all add: option_of_def)
  with undefined_option_overrides [of ?o example_env example_state]
  have "cl_vertexSize (the (closure_of (snd example_undefined) (fst example_undefined))) = Undefined"
    and "cl_fragment (the (closure_of (snd example_undefined) (fst example_undefined))) = Undefined"
    by (simp_all add: example_undefined_def)
  moreover have "cl_vertex (the (closure_of (snd example_undefined) (fst example_undefined)))
       = defaultVertex example_env"
    by (simp add: example_undefined_def closure_of_create resolve_eq option_of_def)
  ultimately show ?thesis by simp
qed

text \<open>
  Claim C10. The exported constant \<^verbatim>\<open>BatchRenderer\<close> is the constructor that
  \<^verbatim>\<open>create\<close> returns when called with no argument; calling \<^verbatim>\<open>create\<close> with
  no argument is the same as calling it with an empty options object; the constructor
  closes over the default vertex source, the default fragment template, 6 and
  \<^verbatim>\<open>BatchGeometry\<close>, and its instances are configured with them.
\<close>

theorem BatchRenderer_is_default_plugin:
  "BatchRenderer env s = create env None s
   \<and> create env None s = create env (Some Map.empty) s
   \<and> closure_of (snd (BatchRenderer env s)) (fst (BatchRenderer env s))
       = Some (BatchPlugin (defaultVertex env) (defaultFragment env) (Num 6) (BatchGeometry env))
   \<and> (\<forall>inst s'.
         construct env (fst (BatchRenderer env s)) renderer (snd (BatchRenderer env s))
           = (Inr inst, s') \<longrightarrow>
         field_of s' inst ''vertexSize'' = Num 6
       \<and> field_of s' inst ''geometryClass'' = BatchGeometry env
       \<and> (\<exists>h1 h2. BatchShaderGenerator_new env (defaultVertex env) (defaultFragment env) h1
                     = (Inr (field_of s' inst ''shaderGenerator''), h2)))"
proof (intro conjI allI impI)
  show "BatchRenderer env s = create env None s"
    by (simp add: BatchRenderer_def)
  show "create env None s = create env (Some Map.empty) s"
    by (simp add: create_def resolve_def Object_assign_def)
  show cl: "closure_of (snd (BatchRenderer env s)) (fst (BatchRenderer env s))
       = Some (BatchPlugin (defaultVertex env) (defaultFragment env) (Num 6) (BatchGeometry env))"
    by (simp add: BatchRenderer_def closure_of_create resolve_eq option_of_def)
  fix inst s'
  assume c: "construct env (fst (BatchRenderer env s)) renderer (snd (BatchRenderer env s))
           = (Inr inst, s')"
  from construct_returns [OF c] cl obtain h1 h2 where
    "BatchShaderGenerator_new env (defaultVertex env) (defaultFragment env) h1
               = (Inr (field_of s' inst ''shaderGenerator''), h2)"
    and "field_of s' inst ''geometryClass'' = BatchGeometry env"
    and "field_of s' inst ''vertexSize'' = Num 6"
    by auto
  then show "field_of s' inst ''vertexSize'' = Num 6"
    and "field_of s' inst ''geometryClass'' = BatchGeometry env"
    and "\<exists>h1 h2. BatchShaderGenerator_new env (defaultVertex env) (defaultFragment env) h1
                     = (Inr (field_of s' inst ''shaderGenerator''), h2)"
    by blast+
qed

text \<open>The theorem at the example: an instance of the exported constructor.\<close>

theorem BatchRenderer_is_default_plugin_witness:
  "fst (construct example_env (fst (BatchRenderer example_env example_state)) (Ref 2)
          (snd (BatchRenderer example_env example_state))) = Inr (Ref 5)
   \<and> field_of (snd (construct example_env (fst (BatchRenderer example_env example_state)) (Ref 2)
          (snd (BatchRenderer example_env example_state)))) (Ref 5) ''vertexSize'' = Num 6
   \<and> field_of (snd (construct example_env (fst (BatchRenderer example_env example_state)) (Ref 2)
          (snd (BatchRenderer example_env example_state)))) (Ref 5) ''geometryClass'' = Ref 1"
proof -
  let ?B = "BatchRenderer example_env example_state"
  let ?c = "construct example_env (fst ?B) (Ref 2) (snd ?B)"
  have f: "fst ?c = Inr (Ref 5)"
    using example_construct_first by (simp add: BatchRenderer_def example_first_def)
  then have c: "?c = (Inr (Ref 5), snd ?c)"
    by (simp add: prod_eq_iff)
  from BatchRenderer_is_default_plugin [of example_env example_state "Ref 2"] c
  have "field_of (snd ?c) (Ref 5) ''vertexSize'' = Num 6
      \<and> field_of (snd ?c) (Ref 5) ''geometryClass'' = BatchGeometry example_env"
    by blast
  moreover have "BatchGeometry example_env = Ref 1"
    by (simp add: example_env_def)
  ultimately show ?thesis
    using f by simp
qed

section \<open>The default sources\<close>

text \<open>
  Claim C4. The static members \<^verbatim>\<open>defaultVertexSrc\<close> and
  \<^verbatim>\<open>defaultFragmentTemplate\<close> are accessors with a getter only: an assignment to
  either leaves the class as it is, in strict and in sloppy code. Each returns the very
  value that \<^verbatim>\<open>create\<close> takes as the vertex source, or as the fragment template,
  when the options omit the key.
\<close>

theorem default_sources_read_only:
  "class_get env BatchRendererFactory ''defaultVertexSrc'' = defaultVertex env
   \<and> class_get env BatchRendererFactory ''defaultFragmentTemplate'' = defaultFragment env
   \<and> snd (class_put strict BatchRendererFactory ''defaultVertexSrc'' v) = BatchRendererFactory
   \<and> snd (class_put strict BatchRendererFactory ''defaultFragmentTemplate'' v) = BatchRendererFactory
   \<and> (option_of options ''vertex'' = None \<longrightarrow>
        cl_vertex (the (closure_of (snd (create env options s)) (fst (create env options s))))
          = class_get env BatchRendererFactory ''defaultVertexSrc'')
   \<and> (option_of options ''fragment'' = None \<longrightarrow>
        cl_fragment (the (closure_of (snd (create env options s)) (fst (create env options s))))
          = class_get env BatchRendererFactory ''defaultFragmentTemplate'')"
  by (simp add: class_get_def class_put_def BatchRendererFactory_def closure_of_create resolve_eq)

text \<open>
  The theorem at the example: the second example constructor, whose options omit both
  sources.
\<close>

theorem default_sources_read_only_witness:
  "cl_vertex (the (closure_of (snd example_second) (fst example_second)))
     = class_get example_env BatchRendererFactory ''defaultVertexSrc''
   \<and> cl_fragment (the (closure_of (snd example_second) (fst example_second)))
     = class_get example_env BatchRendererFactory ''defaultFragmentTemplate''
   \<and> class_get example_env BatchRendererFactory ''defaultVertexSrc''
     = Str ''attribute vec2 aVertexPosition;''"
proof -
  let ?o = "Some [''vertexSize'' \<mapsto> Num 7]"
  have "option_of ?o ''vertex'' = None" "option_of ?o ''fragment'' = None"
    by (simp_all add: option_of_def)
  with default_sources_read_only [where env = example_env and options = ?o and s = "snd example_first"]
  show ?thesis
    by (simp add: example_second_def example_env_def)
qed

section \<open>When the template meets the device\<close>

subsection \<open>The example of the two devices\<close>



lemma spec_env_defaultFragment: "defaultFragment spec_env = Str example_template"
  by (simp add: spec_env_def example_env_def example_template_def)









section \<open>The prototype of the constructors\<close>

text \<open>
  Claim C6 says that any two constructors returned by \<^verbatim>\<open>create\<close> have distinct
  prototype objects, neither being the prototype object of the base renderer. Line 62
  assigns \<^verbatim>\<open>BaseBatchRenderer.prototype\<close> itself: the two example constructors
  are distinct functions with one and the same prototype object, that of the base
  renderer.
\<close>

theorem prototypes_not_distinct:
  "field_of (snd example_second) (fst example_first) ''prototype''
     = field_of (snd example_second) (fst example_second) ''prototype''
   \<and> field_of (snd example_second) (fst example_second) ''prototype''
     = BaseBatchRenderer_prototype example_env
   \<and> fst example_first \<noteq> fst example_second"
proof -
  have "field_of (snd example_second) (fst example_second) ''prototype''
          = BaseBatchRenderer_prototype example_env"
    by (simp add: example_second_def create_prototype)
  moreover have "field_of (snd example_first) (fst example_first) ''prototype''
          = BaseBatchRenderer_prototype example_env"
    by (simp add: example_first_def create_prototype)
  moreover have "field_of (snd example_second) (fst example_first) ''prototype''
          = field_of (snd example_first) (fst example_first) ''prototype''"
    by (simp add: example_first_fst field_of_def get_field_def example_second_def
          create_objs_old example_first_nxt)
  ultimately show ?thesis
    by (simp add: example_first_fst example_second_fst)
qed

text \<open>
  Claim C6, amended. Every constructor returned by \<^verbatim>\<open>create\<close> takes the prototype
  object of the base renderer as its prototype, by reference and not as a copy: any two
  constructors returned are distinct function objects that share this one prototype
  object. A call of \<^verbatim>\<open>create\<close> changes no object that existed before it, so it
  does not mutate the shared prototype. The configuration is written on each instance
  by the constructor.
\<close>

theorem constructors_share_base_prototype:
  "field_of (snd (create env c2 (snd (create env c1 s)))) (fst (create env c1 s)) ''prototype''
     = BaseBatchRenderer_prototype env
   \<and> field_of (snd (create env c2 (snd (create env c1 s))))
        (fst (create env c2 (snd (create env c1 s)))) ''prototype''
     = BaseBatchRenderer_prototype env
   \<and> fst (create env c1 s) \<noteq> fst (create env c2 (snd (create env c1 s)))
   \<and> (\<forall>a < nxt (st s). objs (st (snd (create env c1 s))) a = objs (st s) a)
   \<and> (\<forall>inst s'.
         construct env (fst (create env c1 s)) renderer (snd (create env c1 s)) = (Inr inst, s') \<longrightarrow>
           field_of s' inst ''vertexSize''
             = (case option_of c1 ''vertexSize'' of None \<Rightarrow> Num 6 | Some v \<Rightarrow> v)
         \<and> field_of s' inst ''geometryClass''
             = (case option_of c1 ''geometryClass'' of None \<Rightarrow> BatchGeometry env | Some v \<Rightarrow> v))"
proof (intro conjI allI impI)
  let ?s1 = "snd (create env c1 s)"
  have "field_of (snd (create env c2 ?s1)) (fst (create env c1 s)) ''prototype''
          = field_of ?s1 (fst (create env c1 s)) ''prototype''"
    by (simp add: create_fst field_of_def get_field_def create_objs_old create_nxt)
  then show "field_of (snd (create env c2 ?s1)) (fst (create env c1 s)) ''prototype''
     = BaseBatchRenderer_prototype env"
    by (simp add: create_prototype)
  show "field_of (snd (create env c2 ?s1)) (fst (create env c2 ?s1)) ''prototype''
     = BaseBatchRenderer_prototype env"
    by (rule create_prototype)
  show "fst (create env c1 s) \<noteq> fst (create env c2 ?s1)"
    by (simp add: create_fst create_nxt)
next
  fix a assume "a < nxt (st s)"
  then show "objs (st (snd (create env c1 s))) a = objs (st s) a"
    by (rule create_objs_old)
next
  fix inst s'
  assume c: "construct env (fst (create env c1 s)) renderer (snd (create env c1 s)) = (Inr inst, s')"
  from construct_returns [OF c] obtain cl where
    cl: "closure_of (snd (create env c1 s)) (fst (create env c1 s)) = Some cl"
    and gc: "field_of s' inst ''geometryClass'' = cl_geometryClass cl"
    and vs: "field_of s' inst ''vertexSize'' = cl_vertexSize cl"
    by blast
  from cl have eq: "cl = resolve env c1"
    by (simp add: closure_of_create)
  show "field_of s' inst ''vertexSize''
             = (case option_of c1 ''vertexSize'' of None \<Rightarrow> Num 6 | Some v \<Rightarrow> v)"
    using vs by (simp add: eq resolve_eq)
  show "field_of s' inst ''geometryClass''
             = (case option_of c1 ''geometryClass'' of None \<Rightarrow> BatchGeometry env | Some v \<Rightarrow> v)"
    using gc by (simp add: eq resolve_eq)
qed

text \<open>
  The theorem at the example: address 0 holds the prototype of the base renderer.
\<close>

theorem constructors_share_base_prototype_witness:
  "objs (st (snd example_first)) 0 = objs (st example_state) 0
   \<and> field_of (snd example_second) (fst example_first) ''prototype'' = Ref 0
   \<and> field_of (snd (construct example_env (fst example_first) (Ref 2) (snd example_first)))
        (Ref 5) ''vertexSize'' = Num 6"
proof -
  let ?c = "construct example_env (fst (create example_env None example_state)) (Ref 2)
              (snd (create example_env None example_state))"
  note t = constructors_share_base_prototype
             [of example_env "Some [''vertexSize'' \<mapsto> Num 7]" None example_state "Ref 2"]
  have "(0::nat) < nxt (st example_state)"
    by (simp add: example_state_def)
  with t have "objs (st (snd example_first)) 0 = objs (st example_state) 0"
    unfolding example_first_def by blast
  moreover from t have "field_of (snd example_second) (fst example_first) ''prototype'' = Ref 0"
    by (simp add: example_second_def example_first_def example_env_def)
  moreover have "?c = (Inr (Ref 5), snd ?c)"
    using example_construct_first by (simp add: example_first_def prod_eq_iff)
  with t have "field_of (snd ?c) (Ref 5) ''vertexSize''
                 = (case option_of None ''vertexSize'' of None \<Rightarrow> Num 6 | Some v \<Rightarrow> v)"
    by blast
  ultimately show ?thesis
    by (simp add: example_first_def option_of_def)
qed

section \<open>No validation of the vertex size\<close>

text \<open>
  Claim C7 says that a \<^verbatim>\<open>vertexSize\<close> that does not match the stride of the
  paired geometry layout is signalled as an error by \<^verbatim>\<open>create\<close> or by the
  constructor. The second example constructor pairs \<^verbatim>\<open>vertexSize\<close> 7 with the
  standard layout, whose stride is 6: \<^verbatim>\<open>create\<close> returns, the constructor
  returns an instance, and the instance has \<^verbatim>\<open>vertexSize\<close> 7.
\<close>

theorem mismatched_vertexSize_accepted:
  "Num 7 \<noteq> Num standard_stride
   \<and> cl_geometryClass (the (closure_of (snd example_second) (fst example_second)))
       = BatchGeometry example_env
   \<and> fst (construct example_env (fst example_second) (Ref 2) (snd example_second)) = Inr (Ref 7)
   \<and> field_of (snd (construct example_env (fst example_second) (Ref 2) (snd example_second)))
        (Ref 7) ''vertexSize'' = Num 7"
proof -
  have "cl_geometryClass (the (closure_of (snd example_second) (fst example_second)))
       = BatchGeometry example_env"
    by (simp add: example_second_def closure_of_create resolve_eq option_of_def)
  moreover have "field_of (snd (construct example_env (fst example_second) (Ref 2) (snd example_second)))
        (Ref 7) ''vertexSize'' = Num 7"
    using example_third_vertexSize by (simp add: field_of_def example_third_def)
  ultimately show ?thesis
    using example_construct_second by (simp add: standard_stride_def)
qed

text \<open>
  Claim C7, amended. Neither \<^verbatim>\<open>create\<close> nor the constructor validates
  \<^verbatim>\<open>vertexSize\<close> against the shader or the geometry layout. For two
  configurations that agree on the vertex source and the fragment template, whatever
  their \<^verbatim>\<open>vertexSize\<close> and \<^verbatim>\<open>geometryClass\<close>, the constructor of the one
  returns an instance exactly when the constructor of the other does; and an instance
  carries the \<^verbatim>\<open>vertexSize\<close> of its configuration as given.
\<close>

theorem vertexSize_not_validated:
  assumes "option_of o1 ''vertex'' = option_of o2 ''vertex''"
    and "option_of o1 ''fragment'' = option_of o2 ''fragment''"
  shows "(\<exists>inst. fst (construct env (fst (create env o1 s)) renderer (snd (create env o1 s))) = Inr inst)
       = (\<exists>inst. fst (construct env (fst (create env o2 s)) renderer (snd (create env o2 s))) = Inr inst)
     \<and> (\<forall>inst s'.
          construct env (fst (create env o1 s)) renderer (snd (create env o1 s)) = (Inr inst, s') \<longrightarrow>
          field_of s' inst ''vertexSize''
            = (case option_of o1 ''vertexSize'' of None \<Rightarrow> Num 6 | Some v \<Rightarrow> v))"
proof (intro conjI allI impI)
  have src: "cl_vertex (resolve env o1) = cl_vertex (resolve env o2)"
    "cl_fragment (resolve env o1) = cl_fragment (resolve env o2)"
    using assms by (simp_all add: resolve_eq)
  have "fst (run_body env (resolve env o1) (Suc (Suc (nxt (st s)))) renderer
             (snd (alloc (st (snd (create env o1 s)))
                 \<lparr>members = Map.empty, proto = BaseBatchRenderer_prototype env\<rparr>)))
      = fst (run_body env (resolve env o2) (Suc (Suc (nxt (st s)))) renderer
             (snd (alloc (st (snd (create env o2 s)))
                 \<lparr>members = Map.empty, proto = BaseBatchRenderer_prototype env\<rparr>)))"
    using run_body_same_sources [OF src] create_store_indep [of env o1 s o2] by simp
  then show "(\<exists>inst. fst (construct env (fst (create env o1 s)) renderer (snd (create env o1 s))) = Inr inst)
       = (\<exists>inst. fst (construct env (fst (create env o2 s)) renderer (snd (create env o2 s))) = Inr inst)"
    by (auto simp: construct_create split: prod.splits option.splits)
next
  fix inst s'
  assume c: "construct env (fst (create env o1 s)) renderer (snd (create env o1 s)) = (Inr inst, s')"
  from construct_returns [OF c] obtain cl where
    cl: "closure_of (snd (create env o1 s)) (fst (create env o1 s)) = Some cl"
    and vs: "field_of s' inst ''vertexSize'' = cl_vertexSize cl"
    by blast
  from cl have eq: "cl = resolve env o1"
    by (simp add: closure_of_create)
  show "field_of s' inst ''vertexSize''
            = (case option_of o1 ''vertexSize'' of None \<Rightarrow> Num 6 | Some v \<Rightarrow> v)"
    using vs by (simp add: eq resolve_eq)
qed

text \<open>
  The theorem at the example: the default configuration and the one with
  \<^verbatim>\<open>vertexSize\<close> 7.
\<close>

theorem vertexSize_not_validated_witness:
  "(\<exists>inst. fst (construct example_env (fst example_first) (Ref 2) (snd example_first)) = Inr inst)
   \<and> (\<exists>inst. fst (construct example_env
                   (fst (create example_env (Some [''vertexSize'' \<mapsto> Num 7]) example_state)) (Ref 2)
                   (snd (create example_env (Some [''vertexSize'' \<mapsto> Num 7]) example_state)))
               = Inr inst)"
proof -
  let ?o = "Some [''vertexSize'' \<mapsto> Num 7]"
  have "option_of None ''vertex'' = option_of ?o ''vertex''"
    and "option_of None ''fragment'' = option_of ?o ''fragment''"
    by (simp_all add: option_of_def)
  from vertexSize_not_validated [OF this, of example_env example_state "Ref 2"]
    example_construct_first
  show ?thesis
    by (simp add: example_first_def)
qed

section \<open>Independence of the constructors\<close>

text \<open>
  Claim C5. Two constructors returned by \<^verbatim>\<open>create\<close> for two configurations do
  not interfere. Provided the imported code is local (see \<open>local_callees\<close>):
  constructing instances of any constructor and calling methods on other instances
  never changes the \<^verbatim>\<open>shaderGenerator\<close>, \<^verbatim>\<open>geometryClass\<close> or
  \<^verbatim>\<open>vertexSize\<close> of an instance that exists. And whatever was constructed or
  called in between, an instance of the first constructor is configured from the first
  configuration alone, and an instance of the second from the second alone.
\<close>

theorem constructors_independent:
  assumes "local_callees env"
  shows "(\<forall>a acts s0. a < nxt (st s0) \<longrightarrow> (\<forall>act \<in> set acts. \<not> uses act a) \<longrightarrow>
            (\<forall>k \<in> set config_fields.
               get_field (st (run env acts s0)) a k = get_field (st s0) a k))
     \<and> (\<forall>acts inst s'.
          construct env (fst (create env c1 s)) renderer
            (run env acts (snd (create env c2 (snd (create env c1 s))))) = (Inr inst, s') \<longrightarrow>
          field_of s' inst ''vertexSize''
            = (case option_of c1 ''vertexSize'' of None \<Rightarrow> Num 6 | Some v \<Rightarrow> v)
        \<and> field_of s' inst ''geometryClass''
            = (case option_of c1 ''geometryClass'' of None \<Rightarrow> BatchGeometry env | Some v \<Rightarrow> v)
        \<and> (\<exists>h1 h2.
              BatchShaderGenerator_new env
                (case option_of c1 ''vertex'' of None \<Rightarrow> defaultVertex env | Some v \<Rightarrow> v)
                (case option_of c1 ''fragment'' of None \<Rightarrow> defaultFragment env | Some v \<Rightarrow> v)
                h1
              = (Inr (field_of s' inst ''shaderGenerator''), h2)))
     \<and> (\<forall>acts inst s'.
          construct env (fst (create env c2 (snd (create env c1 s)))) renderer
            (run env acts (snd (create env c2 (snd (create env c1 s))))) = (Inr inst, s') \<longrightarrow>
          field_of s' inst ''vertexSize''
            = (case option_of c2 ''vertexSize'' of None \<Rightarrow> Num 6 | Some v \<Rightarrow> v)
        \<and> field_of s' inst ''geometryClass''
            = (case option_of c2 ''geometryClass'' of None \<Rightarrow> BatchGeometry env | Some v \<Rightarrow> v)
        \<and> (\<exists>h1 h2.
              BatchShaderGenerator_new env
                (case option_of c2 ''vertex'' of None \<Rightarrow> defaultVertex env | Some v \<Rightarrow> v)
                (case option_of c2 ''fragment'' of None \<Rightarrow> defaultFragment env | Some v \<Rightarrow> v)
                h1
              = (Inr (field_of s' inst ''shaderGenerator''), h2)))"
proof -
  let ?s1 = "snd (create env c1 s)"
  let ?s2 = "snd (create env c2 ?s1)"
  have frame: "\<forall>a acts s0. a < nxt (st s0) \<longrightarrow> (\<forall>act \<in> set acts. \<not> uses act a) \<longrightarrow>
            (\<forall>k \<in> set config_fields.
               get_field (st (run env acts s0)) a k = get_field (st s0) a k)"
    using run_frame [OF assms] by (simp add: same_config_def)
  have first: "closure_of (run env acts ?s2) (fst (create env c1 s)) = Some (resolve env c1)"
    for acts
    by (simp add: closure_of_run closure_of_second_create)
  have second: "closure_of (run env acts ?s2) (fst (create env c2 ?s1)) = Some (resolve env c2)"
    for acts
    by (simp add: closure_of_run closure_of_create)
  show ?thesis
    using frame construct_configured [OF _ first] construct_configured [OF _ second]
    by blast
qed

text \<open>
  The theorem at the example: the instance at address 7 keeps its \<^verbatim>\<open>vertexSize\<close>
  while an instance of the other constructor is constructed and used; and an instance of
  the first constructor, made after the second constructor exists, has the default
  \<^verbatim>\<open>vertexSize\<close>.
\<close>

theorem constructors_independent_witness:
  "get_field
     (st (run example_env [New (fst example_first) (Ref 2), Call 9 ''flush'' []] example_third))
     7 ''vertexSize'' = Num 7
   \<and> field_of (snd (construct example_env (fst example_first) (Ref 2) (snd example_second)))
       (Ref 7) ''vertexSize'' = Num 6"
proof -
  let ?acts = "[New (fst example_first) (Ref 2), Call 9 ''flush'' []]"
  note t = constructors_independent [OF local_example_env,
             where ?c1.0 = None and ?c2.0 = "Some [''vertexSize'' \<mapsto> Num 7]"
               and s = example_state and renderer = "Ref 2"]
  have a: "7 < nxt (st example_third)"
    by (simp add: example_third_nxt)
  have u: "\<forall>act \<in> set ?acts. \<not> uses act 7"
    by (simp add: uses_def)
  have k: "''vertexSize'' \<in> set config_fields"
    by (simp add: config_fields_def)
  from t a u k
  have "get_field (st (run example_env ?acts example_third)) 7 ''vertexSize''
          = get_field (st example_third) 7 ''vertexSize''"
    by blast
  then have one: "get_field (st (run example_env ?acts example_third)) 7 ''vertexSize'' = Num 7"
    by (simp add: example_third_vertexSize)
  let ?c = "construct example_env (fst example_first) (Ref 2) (snd example_second)"
  have "construct example_env (fst (create example_env None example_state)) (Ref 2)
          (run example_env []
             (snd (create example_env (Some [''vertexSize'' \<mapsto> Num 7])
                (snd (create example_env None example_state)))))
        = (Inr (Ref 7), snd ?c)"
    using example_construct_first_later
    by (simp add: example_first_def example_second_def prod_eq_iff)
  with t have "field_of (snd ?c) (Ref 7) ''vertexSize''
                 = (case option_of None ''vertexSize'' of None \<Rightarrow> Num 6 | Some v \<Rightarrow> v)"
    by blast
  with one show ?thesis
    by (simp add: option_of_def)
qed

section \<open>Expansion of the fragment template\<close>

subsection \<open>Occurrences and substitution\<close>

lemma count_occ_append_ge: "count_occ tok x + count_occ tok y \<le> count_occ tok (x @ y)"
proof (induction x)
  case Nil
  show ?case by simp
next
  case (Cons c x)
  from prefix_prefix [of tok "c # x" y]
  have "prefix tok (c # x) \<Longrightarrow> prefix tok (c # x @ y)" by simp
  with Cons.IH show ?case by auto
qed

lemma count_occ_self: "tok \<noteq> [] \<Longrightarrow> 1 \<le> count_occ tok (a @ tok @ b)"
proof (induction a)
  case Nil
  then obtain t ts where "tok = t # ts" by (cases tok) auto
  then show ?case by simp
next
  case (Cons c a)
  then show ?case by simp
qed

lemma replace_all_none: "count_occ tok s = 0 \<Longrightarrow> replace_all tok rep s = s"
  by (induction s) (auto split: if_splits)

lemma replace_all_once:
  assumes "tok \<noteq> []"
  shows "count_occ tok (a @ tok @ b) = 1 \<Longrightarrow> replace_all tok rep (a @ tok @ b) = a @ rep @ b"
proof (induction a)
  case Nil
  from assms obtain t ts where tok: "tok = t # ts" by (cases tok) auto
  with Nil have "count_occ tok (ts @ b) = 0" by simp
  with count_occ_append_ge [of tok ts b] have "count_occ tok b = 0" by simp
  then have "replace_all tok rep b = b" by (rule replace_all_none)
  then show ?case using tok by simp
next
  case (Cons c a)
  from count_occ_self [OF assms, of a b] Cons.prems
  have np: "\<not> prefix tok (c # a @ tok @ b)" and one: "count_occ tok (a @ tok @ b) = 1"
    by (auto split: if_splits)
  from Cons.IH [OF one] np show ?case by simp
qed

lemma count_occ_skip:
  assumes "tok \<noteq> []" and "set d \<inter> set tok = {}"
  shows "count_occ tok (d @ y) = count_occ tok y"
  using assms(2)
proof (induction d)
  case Nil
  show ?case by simp
next
  case (Cons c d)
  from assms(1) obtain t ts where tok: "tok = t # ts" by (cases tok) auto
  with Cons.prems have "c \<noteq> t" by auto
  with tok have "\<not> prefix tok (c # d @ y)" by simp
  moreover from Cons.prems have "set d \<inter> set tok = {}" by auto
  ultimately show ?case using Cons.IH by simp
qed

lemma prefix_through_separator:
  assumes "d \<noteq> []" and "set d \<inter> set tok = {}"
  shows "prefix tok (x @ d @ y) = prefix tok x"
proof
  assume p: "prefix tok (x @ d @ y)"
  show "prefix tok x"
  proof (rule ccontr)
    assume n: "\<not> prefix tok x"
    with p prefix_append [of tok x "d @ y"] obtain us where
      t: "tok = x @ us" and u: "prefix us (d @ y)"
      by blast
    from n t have "us \<noteq> []" by auto
    then obtain u' us' where us: "us = u' # us'" by (cases us) auto
    from assms(1) obtain e es where d: "d = e # es" by (cases d) auto
    from u d us have "u' = e" by simp
    with t us d have "e \<in> set tok" "e \<in> set d" by simp_all
    with assms(2) show False by auto
  qed
next
  assume "prefix tok x"
  then show "prefix tok (x @ d @ y)" by simp
qed

lemma count_occ_separator:
  assumes "tok \<noteq> []" and "d \<noteq> []" and "set d \<inter> set tok = {}"
  shows "count_occ tok (x @ d @ y) = count_occ tok x + count_occ tok y"
proof (induction x)
  case Nil
  from count_occ_skip [OF assms(1,3)] show ?case by simp
next
  case (Cons c x)
  from prefix_through_separator [OF assms(2,3), of "c # x" y]
  have "prefix tok (c # x @ d @ y) = prefix tok (c # x)" by simp
  with Cons.IH show ?case by simp
qed

subsection \<open>Decimal literals\<close>

lemma decimal_not_empty: "decimal n \<noteq> []"
  by (subst decimal.simps) simp

lemma digit_in_digits: "n < 10 \<Longrightarrow> ''0123456789'' ! n \<in> set ''0123456789''"
  by (rule nth_mem) simp

lemma decimal_digits: "set (decimal n) \<subseteq> set ''0123456789''"
proof (induction n rule: decimal.induct)
  case (1 n)
  show ?case
  proof (cases "n < 10")
    case True
    with digit_in_digits [of n] show ?thesis
      by (subst decimal.simps) simp
  next
    case False
    have "n mod 10 < 10" by simp
    from digit_in_digits [OF this] "1" [OF False] False show ?thesis
      by (subst decimal.simps) simp
  qed
qed

lemma decimal_separates_loop: "set (decimal n) \<inter> set loop_placeholder = {}"
proof -
  have "set ''0123456789'' \<inter> set loop_placeholder = {}"
    by (simp add: loop_placeholder_def)
  with decimal_digits [of n] show ?thesis by blast
qed

lemma count_placeholder_not_empty: "count_placeholder \<noteq> []"
  by (simp add: count_placeholder_def)

lemma loop_placeholder_not_empty: "loop_placeholder \<noteq> []"
  by (simp add: loop_placeholder_def)

lemma count_occ_after_decimal:
  "count_occ loop_placeholder (x @ decimal n @ y)
     = count_occ loop_placeholder x + count_occ loop_placeholder y"
  by (rule count_occ_separator
        [OF loop_placeholder_not_empty decimal_not_empty decimal_separates_loop])

text \<open>
  Claim C3. Let a fragment template contain the count-placeholder exactly once and the
  loop-placeholder exactly once, as two separate tokens: the template is \<open>p\<close>, one
  placeholder, \<open>m\<close>, the other placeholder, \<open>q\<close>. For every \<open>k\<close> of at least 1,
  \<open>expand\<close> returns the template with the count-placeholder replaced by the decimal
  literal of \<open>k\<close> and the loop-placeholder replaced by the blocks for the units
  \<open>0\<close> to \<open>k - 1\<close>, in ascending order, and everything else as it was.
\<close>

theorem expand_correct:
  assumes c: "count_occ count_placeholder t = 1"
    and l: "count_occ loop_placeholder t = 1"
    and k: "1 \<le> k"
  shows "(t = p @ count_placeholder @ m @ loop_placeholder @ q \<longrightarrow>
            expand block t k = Inr (p @ decimal k @ m @ concat (map block [0..<k]) @ q))
       \<and> (t = p @ loop_placeholder @ m @ count_placeholder @ q \<longrightarrow>
            expand block t k = Inr (p @ concat (map block [0..<k]) @ m @ decimal k @ q))"
proof (intro conjI impI)
  let ?C = count_placeholder and ?L = loop_placeholder
  let ?bs = "concat (map block [0..<k])"
  assume t: "t = p @ ?C @ m @ ?L @ q"
  from c t have "replace_all ?C (decimal k) t = p @ decimal k @ m @ ?L @ q"
    using replace_all_once [OF count_placeholder_not_empty, of p "m @ ?L @ q"] by simp
  moreover
  have "count_occ ?L p + count_occ ?L (?C @ m @ ?L @ q) \<le> 1"
    using count_occ_append_ge [of ?L p "?C @ m @ ?L @ q"] l t by simp
  moreover have "count_occ ?L ?C + count_occ ?L (m @ ?L @ q) \<le> count_occ ?L (?C @ m @ ?L @ q)"
    by (rule count_occ_append_ge)
  moreover have "1 \<le> count_occ ?L (m @ ?L @ q)"
    by (rule count_occ_self [OF loop_placeholder_not_empty])
  ultimately have r: "replace_all ?C (decimal k) t = (p @ decimal k @ m) @ ?L @ q"
    and "count_occ ?L p = 0" and "count_occ ?L (m @ ?L @ q) = 1"
    by simp_all
  then have "count_occ ?L ((p @ decimal k @ m) @ ?L @ q) = 1"
    using count_occ_after_decimal [of p k "m @ ?L @ q"] by simp
  from replace_all_once [OF loop_placeholder_not_empty this]
  have "replace_all ?L ?bs (replace_all ?C (decimal k) t) = (p @ decimal k @ m) @ ?bs @ q"
    by (simp only: r)
  with c l show "expand block t k = Inr (p @ decimal k @ m @ ?bs @ q)"
    by (simp add: expand_def)
next
  let ?C = count_placeholder and ?L = loop_placeholder
  let ?bs = "concat (map block [0..<k])"
  assume t: "t = p @ ?L @ m @ ?C @ q"
  from c t have r: "replace_all ?C (decimal k) t = (p @ ?L @ m) @ decimal k @ q"
    using replace_all_once [OF count_placeholder_not_empty, of "p @ ?L @ m" q] by simp
  have "count_occ ?L (p @ ?L @ m) + count_occ ?L (?C @ q) \<le> 1"
    using count_occ_append_ge [of ?L "p @ ?L @ m" "?C @ q"] l t by simp
  moreover have "count_occ ?L ?C + count_occ ?L q \<le> count_occ ?L (?C @ q)"
    by (rule count_occ_append_ge)
  moreover have "1 \<le> count_occ ?L (p @ ?L @ m)"
    by (rule count_occ_self [OF loop_placeholder_not_empty])
  ultimately have "count_occ ?L (p @ ?L @ m) = 1" and "count_occ ?L q = 0"
    by simp_all
  then have "count_occ ?L (p @ ?L @ (m @ decimal k @ q)) = 1"
    using count_occ_after_decimal [of "p @ ?L @ m" k q] by simp
  from replace_all_once [OF loop_placeholder_not_empty this]
  have "replace_all ?L ?bs (replace_all ?C (decimal k) t) = p @ ?bs @ m @ decimal k @ q"
    by (simp add: r)
  with c l show "expand block t k = Inr (p @ ?bs @ m @ decimal k @ q)"
    by (simp add: expand_def)
qed

text \<open>The theorem at a template with both placeholders, for two texture units.\<close>

theorem expand_correct_witness:
  "expand example_block ''a[%count%]; %forloop% z'' 2 = Inr ''a[2]; <0><1> z''"
proof -
  let ?t = "''a[%count%]; %forloop% z''"
  have c: "count_occ count_placeholder ?t = 1"
    by (simp add: count_placeholder_def)
  have l: "count_occ loop_placeholder ?t = 1"
    by (simp add: loop_placeholder_def)
  have t: "?t = ''a['' @ count_placeholder @ '']; '' @ loop_placeholder @ '' z''"
    by (simp add: count_placeholder_def loop_placeholder_def)
  have k: "(1::nat) \<le> 2" by simp
  from expand_correct [OF c l k, of "''a[''" "'']; ''" "'' z''" example_block] t
  have "expand example_block ?t 2
          = Inr (''a['' @ decimal 2 @ '']; '' @ concat (map example_block [0..<2]) @ '' z'')"
    by blast
  moreover have "[0..<2] = [0, Suc 0]"
    by (simp add: upt_rec)
  moreover have "decimal 2 = ''2''" "decimal 0 = ''0''" "decimal (Suc 0) = ''1''"
    by (simp_all add: decimal.simps)
  ultimately show ?thesis
    by (simp add: example_block_def)
qed

section \<open>Draw order\<close>

lemma concat_split_runs: "concat (split_runs ds) = ds"
  by (induction ds) (auto split: list.splits)

lemma objects_of_batches: "map (objects \<circ> (\<lambda>r. \<lparr>slots = t, objects = r\<rparr>)) rs = rs"
  by (induction rs) simp_all

lemma flush_emitted:
  "concat (map objects (emitted (flush e))) = concat (map objects (emitted e)) @ buffer e"
  by (simp add: flush_def objects_of_batches concat_split_runs)

lemma flush_buffer: "buffer (flush e) = []"
  by (simp add: flush_def)

lemma assign_slot_drawn:
  "concat (map objects (emitted (assign_slot n e d))) @ buffer (assign_slot n e d)
     = concat (map objects (emitted e)) @ buffer e"
  by (simp add: assign_slot_def flush_emitted flush_buffer split: option.splits)

lemma render_drawn:
  "concat (map objects (emitted (render n c e d))) @ buffer (render n c e d)
     = (concat (map objects (emitted e)) @ buffer e) @ [d]"
proof -
  let ?e1 = "if sum_list (map vertices (buffer e)) + vertices d > c then flush e else e"
  have "concat (map objects (emitted ?e1)) @ buffer ?e1
          = concat (map objects (emitted e)) @ buffer e"
    by (simp add: flush_emitted flush_buffer)
  with assign_slot_drawn [of n ?e1 d] show ?thesis
    by (simp add: render_def Let_def)
qed

lemma foldl_render_drawn:
  "concat (map objects (emitted (foldl (render n c) e ds))) @ buffer (foldl (render n c) e ds)
     = (concat (map objects (emitted e)) @ buffer e) @ ds"
proof (induction ds arbitrary: e)
  case Nil
  show ?case by simp
next
  case (Cons d ds)
  from Cons.IH [of "render n c e d"] render_drawn [of n c e d] show ?case
    by simp
qed

text \<open>
  The scenarios of section 8 of the specification: five drawables with five textures and
  four texture units give two batches, the first of four drawables; a buffer of eight
  vertices flushes after every second drawable.
\<close>

lemma example_pass:
  "map (map texture \<circ> objects) (emitted (render_pass 4 400 example_drawables))
     = [[10, 11, 12, 13], [14]]"
  by (simp add: render_pass_def example_drawables_def empty_engine_def render_def assign_slot_def
        flush_def Let_def)

lemma example_pass_capacity:
  "map (map texture \<circ> objects) (emitted (render_pass 4 8 example_drawables))
     = [[10, 11], [12, 13], [14]]"
  by (simp add: render_pass_def example_drawables_def empty_engine_def render_def assign_slot_def
        flush_def Let_def)

text \<open>
  Claim C2. For every sequence of drawables rendered in draw order and ended by a flush,
  whatever their textures, the number of texture units and the capacity of the buffer,
  the object ranges of the batch descriptors emitted, concatenated in the order of
  emission, are the input sequence: no two drawables change places.
\<close>

theorem draw_order_preserved:
  "concat (map objects (emitted (render_pass maxTextureUnits capacity ds))) = ds"
  using foldl_render_drawn [of maxTextureUnits capacity empty_engine ds]
  by (simp add: render_pass_def flush_emitted empty_engine_def)

end
